theory Spec2Isabelle
  imports Complex_Main "HOL-Library.Sublist"
begin

section \<open>The listing loader\<close>

text \<open>
  \<^verbatim>\<open>scroll_and_load_listings(page, total)\<close> waits for a first listing link, then polls the
  number of listing links, scrolling between polls, and at last takes the links the page
  shows, cuts the list at \<^verbatim>\<open>total\<close> and replaces each link by its parent.

  The browser is the environment. What each call on the page returns is an input of the
  model: whether \<^verbatim>\<open>wait_for_selector\<close> finds a link before its timeout, the number each
  successive \<^verbatim>\<open>count()\<close> returns (one entry of a list per poll), and the number of links
  \<^verbatim>\<open>all()\<close> finds after the loop. A list of polls that runs out before the loop has
  stopped gives \<open>None\<close>: the loop wants a further poll.
\<close>

datatype error = TimeoutError

text \<open>
  A locator: the \<open>n\<close>-th link matched by the listing-link pattern, or the parent
  (\<^verbatim>\<open>locator("xpath=..")\<close>) of another locator.
\<close>

datatype element = Link nat | Parent element

datatype loop_exit = Reached_target | Reached_end

text \<open>
  The \<^verbatim>\<open>while True\<close> loop (lines 124 to 146). The arguments are \<^verbatim>\<open>total\<close>,
  \<^verbatim>\<open>previously_counted\<close>, \<^verbatim>\<open>same_count_iterations\<close>, the number of polls made so far and
  the results of the polls to come. The result names the \<^verbatim>\<open>break\<close> taken, the number of
  polls made and \<^verbatim>\<open>current_count\<close>.
\<close>

fun scroll_loop :: "int \<Rightarrow> nat \<Rightarrow> nat \<Rightarrow> nat \<Rightarrow> nat list \<Rightarrow> (loop_exit \<times> nat \<times> nat) option" where
  "scroll_loop total' previously_counted same_count_iterations polls [] = None"
| "scroll_loop total' previously_counted same_count_iterations polls (current_count # later) =
     (if total' \<le> int current_count then Some (Reached_target, Suc polls, current_count)
      else if current_count = previously_counted then
        (if 2 \<le> same_count_iterations + 1 then Some (Reached_end, Suc polls, current_count)
         else scroll_loop total' previously_counted (same_count_iterations + 1) (Suc polls) later)
      else scroll_loop total' current_count 0 (Suc polls) later)"

text \<open>
  Python's \<^verbatim>\<open>xs[:n]\<close>: the first \<open>n\<close> elements, and for a negative \<open>n\<close> all but the last
  \<open>- n\<close>.
\<close>

definition slice_to :: "int \<Rightarrow> 'a list \<Rightarrow> 'a list" where
  "slice_to n xs = (if 0 \<le> n then take (nat n) xs else take (length xs - nat (- n)) xs)"

text \<open>\<^verbatim>\<open>page.locator(...).all()\<close> on a page that shows \<open>n\<close> links.\<close>

definition all_links :: "nat \<Rightarrow> element list" where
  "all_links n = map Link [0..<n]"

record results_page =
  selector_appears :: bool
  counts :: "nat list"
  links_at_end :: nat

definition scroll_and_load_listings :: "results_page \<Rightarrow> int \<Rightarrow> (error + element list) option" where
  "scroll_and_load_listings page total' =
     (if \<not> selector_appears page then Some (Inl TimeoutError)
      else case scroll_loop total' 0 0 0 (counts page) of
        None \<Rightarrow> None
      | Some _ \<Rightarrow> Some (Inr (map Parent (slice_to total' (all_links (links_at_end page))))))"

section \<open>Strings and numbers of Python\<close>

text \<open>
  A \<^typ>\<open>char\<close> stands for a code point below 256, so a \<^typ>\<open>string\<close> is a Python
  \<^verbatim>\<open>str\<close> of such code points. Code points from 256 on are outside the model; among them
  are the decimal digits of other scripts, which \<^verbatim>\<open>int\<close> and \<^verbatim>\<open>float\<close> read as well.
\<close>

text \<open>
  \<^verbatim>\<open>str.isspace\<close>, which \<^verbatim>\<open>split()\<close> and \<^verbatim>\<open>strip()\<close> use: tab to carriage return,
  the four separators 28 to 31, the space, and the code points 133 and 160.
\<close>

definition is_space :: "char \<Rightarrow> bool" where
  "is_space c = (let n = (of_char c :: nat) in
     (9 \<le> n \<and> n \<le> 13) \<or> (28 \<le> n \<and> n \<le> 32) \<or> n = 133 \<or> n = 160)"

text \<open>
  The white space \<^verbatim>\<open>int\<close> and \<^verbatim>\<open>float\<close> skip at both ends of their argument: as
  above, without the separators 28 to 31.
\<close>

definition is_number_space :: "char \<Rightarrow> bool" where
  "is_number_space c = (let n = (of_char c :: nat) in
     (9 \<le> n \<and> n \<le> 13) \<or> n = 32 \<or> n = 133 \<or> n = 160)"

definition is_digit :: "char \<Rightarrow> bool" where
  "is_digit c = (48 \<le> (of_char c :: nat) \<and> (of_char c :: nat) \<le> 57)"

definition digit_value :: "char \<Rightarrow> nat" where
  "digit_value c = of_char c - 48"

definition to_lower :: "char \<Rightarrow> char" where
  "to_lower c = (if 65 \<le> (of_char c :: nat) \<and> (of_char c :: nat) \<le> 90
     then char_of ((of_char c :: nat) + 32) else c)"

text \<open>
  \<^verbatim>\<open>s.split(sep)\<close> for a separator that is not empty (the source passes the literals
  \<^verbatim>\<open>'/@'\<close>, \<^verbatim>\<open>'/'\<close> and \<^verbatim>\<open>','\<close>): the string is cut at every occurrence of the
  separator, found from left to right. The result is never empty.
\<close>

function split_on :: "string \<Rightarrow> string \<Rightarrow> string list" where
  "split_on sep [] = [[]]"
| "split_on sep (c # cs) =
     (if sep \<noteq> [] \<and> prefix sep (c # cs) then [] # split_on sep (drop (length sep) (c # cs))
      else (case split_on sep cs of [] \<Rightarrow> [[c]] | piece # pieces \<Rightarrow> (c # piece) # pieces))"
  by pat_completeness auto
termination
  by (relation "measure (\<lambda>(sep, s). length s)") (auto simp: neq_Nil_conv)

text \<open>\<^verbatim>\<open>s.split()\<close>: the maximal runs of characters that are not white space.\<close>

function split_ws :: "string \<Rightarrow> string list" where
  "split_ws [] = []"
| "split_ws (c # cs) =
     (if is_space c then split_ws cs
      else takeWhile (\<lambda>x. \<not> is_space x) (c # cs) # split_ws (dropWhile (\<lambda>x. \<not> is_space x) cs))"
  by pat_completeness auto
termination
  by (relation "measure length") (auto simp: length_dropWhile_le less_Suc_eq_le)

text \<open>\<^verbatim>\<open>s.strip()\<close>, for a given class of white space.\<close>

definition strip_with :: "(char \<Rightarrow> bool) \<Rightarrow> string \<Rightarrow> string" where
  "strip_with sp s = rev (dropWhile sp (rev (dropWhile sp s)))"

text \<open>\<^verbatim>\<open>s.replace(old, new)\<close> for a one-character \<^verbatim>\<open>old\<close>.\<close>

definition replace_char :: "char \<Rightarrow> string \<Rightarrow> string \<Rightarrow> string" where
  "replace_char old new s = concat (map (\<lambda>c. if c = old then new else [c]) s)"

text \<open>
  \<^verbatim>\<open>xs[i]\<close>: a negative index counts from the end, and an index out of range raises
  \<^verbatim>\<open>IndexError\<close>, here \<open>None\<close>.
\<close>

definition item :: "'a list \<Rightarrow> int \<Rightarrow> 'a option" where
  "item xs i = (let j = (if i < 0 then i + int (length xs) else i) in
     if j < 0 \<or> int (length xs) \<le> j then None else Some (xs ! nat j))"

text \<open>
  \<^verbatim>\<open>int(s)\<close>: white space at both ends is skipped; then an optional sign and decimal
  digits, where one underscore may stand between two digits. A text of more than
  \<^verbatim>\<open>sys.get_int_max_str_digits()\<close> digits, 4300 unless the interpreter is told otherwise,
  is refused; underscores, sign and white space do not count. Anything else, and a refused
  text, raises \<^verbatim>\<open>ValueError\<close>, here \<open>None\<close>. \<open>digit_run\<close> reads the digits after the
  first one; its flag says that the character before was an underscore.
\<close>

definition max_str_digits :: nat where
  "max_str_digits = 4300"

fun digit_run :: "bool \<Rightarrow> nat \<Rightarrow> string \<Rightarrow> nat option" where
  "digit_run underscore acc [] = (if underscore then None else Some acc)"
| "digit_run underscore acc (c # cs) =
     (if is_digit c then digit_run False (10 * acc + digit_value c) cs
      else if c = CHR ''_'' \<and> \<not> underscore then digit_run True acc cs
      else None)"

definition digitpart :: "string \<Rightarrow> nat option" where
  "digitpart s = (case s of [] \<Rightarrow> None
     | c # cs \<Rightarrow> if is_digit c then digit_run False (digit_value c) cs else None)"

definition limited_digitpart :: "string \<Rightarrow> nat option" where
  "limited_digitpart s =
     (case digitpart s of None \<Rightarrow> None
      | Some n \<Rightarrow> if max_str_digits < length (filter is_digit s) then None else Some n)"

definition py_int :: "string \<Rightarrow> int option" where
  "py_int s = (case strip_with is_number_space s of [] \<Rightarrow> None
     | c # cs \<Rightarrow>
         if c = CHR ''-'' then map_option (\<lambda>n. - int n) (limited_digitpart cs)
         else if c = CHR ''+'' then map_option int (limited_digitpart cs)
         else map_option int (limited_digitpart (c # cs)))"

text \<open>
  A Python \<^verbatim>\<open>float\<close>. A finite one stands for the exact decimal value of the literal it
  was read from: the rounding of that value to a binary64 number (and with it the overflow
  of a huge literal to infinity and the sign of a zero) is not modelled.
\<close>

datatype pyfloat = Finite rat | Inf_pos | Inf_neg | NaN

text \<open>
  \<^verbatim>\<open>float(s)\<close>. White space at both ends is skipped. Underscores are removed, each of them
  having to stand between two digits. What is left is an optional sign and then
  \<^verbatim>\<open>inf\<close>, \<^verbatim>\<open>infinity\<close> or \<^verbatim>\<open>nan\<close> in any case of letters, or a decimal number: digits
  with an optional point (at least one digit before or after it) and an optional exponent.
  Anything else raises \<^verbatim>\<open>ValueError\<close>, here \<open>None\<close>.
\<close>

fun remove_underscores :: "char \<Rightarrow> string \<Rightarrow> string option" where
  "remove_underscores prev [] = (if prev = CHR ''_'' then None else Some [])"
| "remove_underscores prev (c # cs) =
     (if c = CHR ''_'' then (if is_digit prev then remove_underscores c cs else None)
      else if prev = CHR ''_'' \<and> \<not> is_digit c then None
      else map_option ((#) c) (remove_underscores c cs))"

definition digits_value :: "string \<Rightarrow> nat" where
  "digits_value ds = foldl (\<lambda>acc c. 10 * acc + digit_value c) 0 ds"

definition decimal_value :: "bool \<Rightarrow> nat \<Rightarrow> int \<Rightarrow> rat" where
  "decimal_value negative m e =
     (let v = (if 0 \<le> e then of_nat m * 10 ^ nat e else of_nat m / 10 ^ nat (- e))
      in if negative then - v else v)"

definition split_sign :: "string \<Rightarrow> bool \<times> string" where
  "split_sign s = (case s of [] \<Rightarrow> (False, [])
     | c # cs \<Rightarrow> if c = CHR ''-'' then (True, cs) else if c = CHR ''+'' then (False, cs)
         else (False, c # cs))"

definition parse_exponent :: "string \<Rightarrow> int option" where
  "parse_exponent s = (case s of [] \<Rightarrow> Some 0
     | c # cs \<Rightarrow>
         if c = CHR ''e'' \<or> c = CHR ''E'' then
           (case split_sign cs of (negative, ds) \<Rightarrow>
              if ds \<noteq> [] \<and> list_all is_digit ds
              then Some (if negative then - int (digits_value ds) else int (digits_value ds))
              else None)
         else None)"

definition parse_number :: "bool \<Rightarrow> string \<Rightarrow> pyfloat option" where
  "parse_number negative s =
     (let whole = takeWhile is_digit s; after_whole = dropWhile is_digit s;
          (fraction, after_fraction) =
            (case after_whole of [] \<Rightarrow> ([], [])
             | c # cs \<Rightarrow> if c = CHR ''.'' then (takeWhile is_digit cs, dropWhile is_digit cs)
                 else ([], c # cs))
      in if whole = [] \<and> fraction = [] then None
         else case parse_exponent after_fraction of None \<Rightarrow> None
           | Some e \<Rightarrow> Some (Finite (decimal_value negative (digits_value (whole @ fraction))
                                       (e - int (length fraction)))))"

definition py_float :: "string \<Rightarrow> pyfloat option" where
  "py_float s =
     (case remove_underscores (CHR 0x00) (strip_with is_number_space s) of None \<Rightarrow> None
      | Some t \<Rightarrow>
          (case split_sign t of (negative, body) \<Rightarrow>
             if map to_lower body = ''inf'' \<or> map to_lower body = ''infinity''
             then Some (if negative then Inf_neg else Inf_pos)
             else if map to_lower body = ''nan'' then Some NaN
             else parse_number negative body))"

section \<open>The coordinate extractor\<close>

text \<open>
  \<^verbatim>\<open>extract_coordinates_from_url(url)\<close>. The body of the \<^verbatim>\<open>try\<close> is a computation in
  \<open>option\<close>: an index out of range and a text that \<^verbatim>\<open>float\<close> refuses are \<open>None\<close>, and
  the bare \<^verbatim>\<open>except\<close> turns every \<open>None\<close> into the pair \<^verbatim>\<open>(None, None)\<close>.
\<close>

definition coordinates_of :: "string \<Rightarrow> string option" where
  "coordinates_of url =
     Option.bind (item (split_on ''/@'' url) (- 1)) (\<lambda>after. item (split_on ''/'' after) 0)"

definition extract_coordinates_from_url :: "string \<Rightarrow> pyfloat option \<times> pyfloat option" where
  "extract_coordinates_from_url url =
     (case Option.bind (coordinates_of url) (\<lambda>coordinates.
             Option.bind (Option.bind (item (split_on '','' coordinates) 0) py_float) (\<lambda>lat.
             Option.bind (Option.bind (item (split_on '','' coordinates) 1) py_float) (\<lambda>lng.
             Some (lat, lng)))) of
        Some (lat, lng) \<Rightarrow> (Some lat, Some lng)
      | None \<Rightarrow> (None, None))"

text \<open>
  The text the extractor looks at, described by position and without \<^verbatim>\<open>split\<close>: what
  follows the last \<^verbatim>\<open>/@\<close> of the string (the whole string when it has none), up to the
  next \<^verbatim>\<open>/\<close>; and in that text the part before the first comma, and the part between
  the first comma and the second (or the end).
\<close>

definition after_last_marker :: "string \<Rightarrow> string" where
  "after_last_marker url =
     (case find (prefix ''/@'') (suffixes url) of None \<Rightarrow> url | Some t \<Rightarrow> drop 2 t)"

definition examined_text :: "string \<Rightarrow> string" where
  "examined_text url = takeWhile (\<lambda>c. c \<noteq> CHR ''/'') (after_last_marker url)"

definition first_part :: "string \<Rightarrow> string" where
  "first_part s = takeWhile (\<lambda>c. c \<noteq> CHR '','') s"

definition second_part :: "string \<Rightarrow> string" where
  "second_part s = takeWhile (\<lambda>c. c \<noteq> CHR '','') (drop 1 (dropWhile (\<lambda>c. c \<noteq> CHR '','') s))"

section \<open>The detail extractor\<close>

text \<open>The dataclass \<^verbatim>\<open>Business\<close>: every field is \<^verbatim>\<open>None\<close> until it is assigned.\<close>

record Business =
  name :: "string option"
  address :: "string option"
  website :: "string option"
  phone_number :: "string option"
  reviews_count :: "int option"
  reviews_average :: "pyfloat option"
  latitude :: "pyfloat option"
  longitude :: "pyfloat option"

text \<open>A call on the browser raises or returns a value.\<close>

datatype 'a outcome = Raises | Returns 'a

text \<open>
  One region of the detail panel: what \<^verbatim>\<open>is_visible(timeout=500)\<close> does on its locator,
  and what reading the region (\<^verbatim>\<open>inner_text()\<close>, or \<^verbatim>\<open>get_attribute\<close> for the average)
  does.
\<close>

record 'a region =
  is_visible :: "bool outcome"
  content :: "'a outcome"

text \<open>
  What the browser does while one listing is scraped: the click, the wait of two seconds,
  the read of the listing's \<^verbatim>\<open>aria-label\<close> (\<^verbatim>\<open>get_attribute\<close> returns \<^verbatim>\<open>None\<close> for a
  missing attribute), the five regions and \<^verbatim>\<open>page.url\<close> after the click.
\<close>

record listing_page =
  click :: "unit outcome"
  wait_for_timeout :: "unit outcome"
  name_attribute :: "string option outcome"
  address_region :: "string region"
  website_region :: "string region"
  phone_number_region :: "string region"
  review_count_region :: "string region"
  reviews_average_region :: "string option region"
  url :: string

text \<open>
  The \<^verbatim>\<open>try\<close> blocks of address, website and phone number (lines 74 to 90), given the
  field's value before the block: a region that is visible gives its text, a region that is
  not leaves the field as it was, and an exception gives the empty string.
\<close>

definition text_field :: "string region \<Rightarrow> string option \<Rightarrow> string option" where
  "text_field region before =
     (case is_visible region of
        Raises \<Rightarrow> Some []
      | Returns False \<Rightarrow> before
      | Returns True \<Rightarrow> (case content region of Raises \<Rightarrow> Some [] | Returns t \<Rightarrow> Some t))"

text \<open>
  \<^verbatim>\<open>int(review_text.split()[0].replace(',', '').strip())\<close> and
  \<^verbatim>\<open>float(avg_text.split()[0].replace(',', '.').strip())\<close>, with \<open>None\<close> for an
  exception.
\<close>

definition reviews_count_of_text :: "string \<Rightarrow> int option" where
  "reviews_count_of_text review_text =
     Option.bind (item (split_ws review_text) 0)
       (\<lambda>token. py_int (strip_with is_space (replace_char (CHR '','') [] token)))"

definition reviews_average_of_text :: "string \<Rightarrow> pyfloat option" where
  "reviews_average_of_text avg_text =
     Option.bind (item (split_ws avg_text) 0)
       (\<lambda>token. py_float (strip_with is_space (replace_char (CHR '','') ''.'' token)))"

text \<open>
  The \<^verbatim>\<open>try\<close> blocks of the two review fields (lines 92 to 104): every exception, also
  the one of calling \<^verbatim>\<open>split\<close> on an attribute that is \<^verbatim>\<open>None\<close>, gives \<^verbatim>\<open>None\<close>.
\<close>

definition reviews_count_field :: "string region \<Rightarrow> int option \<Rightarrow> int option" where
  "reviews_count_field region before =
     (case is_visible region of
        Raises \<Rightarrow> None
      | Returns False \<Rightarrow> before
      | Returns True \<Rightarrow>
          (case content region of Raises \<Rightarrow> None | Returns t \<Rightarrow> reviews_count_of_text t))"

definition reviews_average_field :: "string option region \<Rightarrow> pyfloat option \<Rightarrow> pyfloat option" where
  "reviews_average_field region before =
     (case is_visible region of
        Raises \<Rightarrow> None
      | Returns False \<Rightarrow> before
      | Returns True \<Rightarrow>
          (case content region of
             Raises \<Rightarrow> None
           | Returns None \<Rightarrow> None
           | Returns (Some t) \<Rightarrow> reviews_average_of_text t))"

text \<open>\<^verbatim>\<open>x or ""\<close> for an \<^verbatim>\<open>x\<close> that is \<^verbatim>\<open>None\<close> or a string.\<close>

definition or_empty :: "string option \<Rightarrow> string" where
  "or_empty x = (case x of None \<Rightarrow> [] | Some t \<Rightarrow> t)"

text \<open>
  \<^verbatim>\<open>scrape_business_details(page, listing)\<close>: \<open>None\<close> is the \<^verbatim>\<open>return None\<close> of the outer
  \<^verbatim>\<open>except\<close>, which the click, the wait and the read of the name can reach; the five
  blocks after them catch their own exceptions.
\<close>

definition scrape_business_details :: "listing_page \<Rightarrow> Business option" where
  "scrape_business_details page =
     (case click page of Raises \<Rightarrow> None | Returns _ \<Rightarrow>
      case wait_for_timeout page of Raises \<Rightarrow> None | Returns _ \<Rightarrow>
      case name_attribute page of Raises \<Rightarrow> None | Returns label \<Rightarrow>
        (let business = \<lparr>name = None, address = None, website = None, phone_number = None,
               reviews_count = None, reviews_average = None, latitude = None,
               longitude = None\<rparr>;
             business = business\<lparr>name := Some (or_empty label)\<rparr>;
             business = business\<lparr>address := text_field (address_region page) (address business)\<rparr>;
             business = business\<lparr>website := text_field (website_region page) (website business)\<rparr>;
             business = business\<lparr>phone_number :=
               text_field (phone_number_region page) (phone_number business)\<rparr>;
             business = business\<lparr>reviews_count :=
               reviews_count_field (review_count_region page) (reviews_count business)\<rparr>;
             business = business\<lparr>reviews_average :=
               reviews_average_field (reviews_average_region page) (reviews_average business)\<rparr>;
             (lat, lng) = extract_coordinates_from_url (url page)
         in Some (business\<lparr>latitude := lat, longitude := lng\<rparr>)))"

text \<open>
  The displayed review count, described by position and without the reader of \<^verbatim>\<open>int\<close>.
  Its leading token is what stands between the white space at the start and the next white
  space; its number text is that token without the thousands separators. The text is well
  formed when the number text is an integer: an optional sign, then digits where single
  underscores may stand between two digits, with no more digits than \<^verbatim>\<open>int\<close> takes.
  Every other text is malformed: the empty and the blank one, and the one whose number
  text is no integer. The value of a well-formed text is the number its digits write, with
  the sign.
\<close>

definition leading_token :: "string \<Rightarrow> string" where
  "leading_token s = takeWhile (\<lambda>c. \<not> is_space c) (dropWhile is_space s)"

definition number_text :: "string \<Rightarrow> string" where
  "number_text s = filter (\<lambda>c. c \<noteq> CHR '','') (leading_token s)"

definition signed :: "string \<Rightarrow> bool" where
  "signed t = (t \<noteq> [] \<and> (hd t = CHR ''-'' \<or> hd t = CHR ''+''))"

definition adjacent_underscores :: "string \<Rightarrow> bool" where
  "adjacent_underscores t = list_ex (\<lambda>(a, b). a = CHR ''_'' \<and> b = CHR ''_'') (zip t (tl t))"

definition grouped_digits :: "string \<Rightarrow> bool" where
  "grouped_digits t =
     (t \<noteq> [] \<and> is_digit (hd t) \<and> is_digit (last t)
      \<and> list_all (\<lambda>c. is_digit c \<or> c = CHR ''_'') t
      \<and> \<not> adjacent_underscores t)"

definition integer_text :: "string \<Rightarrow> bool" where
  "integer_text t =
     (grouped_digits (if signed t then tl t else t)
      \<and> length (filter is_digit t) \<le> max_str_digits)"

definition integer_value :: "string \<Rightarrow> int" where
  "integer_value t =
     (if t \<noteq> [] \<and> hd t = CHR ''-'' then - int (digits_value (filter is_digit t))
      else int (digits_value (filter is_digit t)))"

definition well_formed_review_count :: "string \<Rightarrow> bool" where
  "well_formed_review_count s = integer_text (number_text s)"

definition malformed_review_count :: "string \<Rightarrow> bool" where
  "malformed_review_count s = (\<not> well_formed_review_count s)"

text \<open>
  The attribute of the average, in the same way: its number text is the leading token with
  every comma turned into a point.
\<close>

definition average_text :: "string \<Rightarrow> string" where
  "average_text s = map (\<lambda>c. if c = CHR '','' then CHR ''.'' else c) (leading_token s)"

section \<open>The driver\<close>

text \<open>
  The start of \<^verbatim>\<open>main\<close> (lines 166 to 178), from the value of \<^verbatim>\<open>--search\<close> and the
  lines of \<^verbatim>\<open>input.txt\<close> (\<open>None\<close> when the file does not exist). It ends with the list
  of queries, with which the browser is then launched, or with \<^verbatim>\<open>sys.exit()\<close> after a
  message: \<open>SystemExit\<close> holds the lines printed and the code of the exit.
  \<^verbatim>\<open>sys.exit\<close> raises \<^verbatim>\<open>SystemExit\<close> with the code it is given, here none, and the
  interpreter's exit status is that code, or 0 when there is none.
\<close>

definition no_query_message :: string where
  "no_query_message =
     ''Error: You must either pass the -s search argument, or add searches to input.txt''"

datatype start = SystemExit "string list" "int option" | Launch "string list"

definition exit_status :: "int option \<Rightarrow> int" where
  "exit_status code = (case code of None \<Rightarrow> 0 | Some n \<Rightarrow> n)"

definition search_queries :: "string option \<Rightarrow> string list option \<Rightarrow> start" where
  "search_queries search input_lines =
     (case (case search of None \<Rightarrow> None | Some q \<Rightarrow> if q = [] then None else Some q) of
        Some q \<Rightarrow> Launch [q]
      | None \<Rightarrow>
          (let search_list =
             (case input_lines of None \<Rightarrow> []
              | Some lines \<Rightarrow>
                  map (strip_with is_space)
                    (filter (\<lambda>line. strip_with is_space line \<noteq> []) lines))
           in if search_list = [] then SystemExit [no_query_message] None
              else Launch search_list))"

text \<open>
  One search: the results page the loader sees, and for each listing the loader returns
  what the browser does while that listing is scraped.
\<close>

record search_page =
  results :: results_page
  details :: "element \<Rightarrow> listing_page"

text \<open>The loop over the listings (lines 223 to 226): a record is appended unless it is
  \<^verbatim>\<open>None\<close>.\<close>

fun scrape_listings :: "(element \<Rightarrow> listing_page) \<Rightarrow> element list \<Rightarrow> Business list \<Rightarrow> Business list" where
  "scrape_listings pages [] business_list = business_list"
| "scrape_listings pages (listing # listings) business_list =
     (case scrape_business_details (pages listing) of
        None \<Rightarrow> scrape_listings pages listings business_list
      | Some business \<Rightarrow> scrape_listings pages listings (business_list @ [business]))"

text \<open>
  The loop over the queries (lines 205 to 231), from the collection so far. The calls that
  type a query into the search box are taken to return. An exception of the loader is not
  caught: it ends the run, and no collection is written. \<open>None\<close> comes from the loader
  alone, when its polls run out.
\<close>

fun run_searches :: "int \<Rightarrow> search_page list \<Rightarrow> Business list \<Rightarrow> (error + Business list) option" where
  "run_searches total' [] business_list = Some (Inr business_list)"
| "run_searches total' (page # pages) business_list =
     (case scroll_and_load_listings (results page) total' of
        None \<Rightarrow> None
      | Some (Inl e) \<Rightarrow> Some (Inl e)
      | Some (Inr listings) \<Rightarrow>
          run_searches total' pages (scrape_listings (details page) listings business_list))"

text \<open>\<^verbatim>\<open>total = args.total if args.total else 1_000_000\<close>.\<close>

definition total_of :: "int option \<Rightarrow> int" where
  "total_of arg = (case arg of None \<Rightarrow> 1000000 | Some n \<Rightarrow> if n = 0 then 1000000 else n)"

text \<open>
  The listings the loader returns for one search (none when it raises), and two
  conditions on what the browser does for one listing: its activation succeeds (the click
  and the wait after it return), and moreover the read of its name returns.
\<close>

definition loaded_listings :: "int \<Rightarrow> search_page \<Rightarrow> element list" where
  "loaded_listings total' page =
     (case scroll_and_load_listings (results page) total' of
        Some (Inr listings) \<Rightarrow> listings
      | _ \<Rightarrow> [])"

definition activated :: "listing_page \<Rightarrow> bool" where
  "activated page = (click page = Returns () \<and> wait_for_timeout page = Returns ())"

definition recorded :: "listing_page \<Rightarrow> bool" where
  "recorded page = (activated page \<and> name_attribute page \<noteq> Raises)"

section \<open>Sample pages\<close>

text \<open>
  A region that is not on the panel, a region that shows a content, and a listing to run
  the extractor on: its address is not shown, the check of its website raises, and its
  other regions show a text.
\<close>

definition hidden :: "'a region" where
  "hidden = \<lparr>is_visible = Returns False, content = Raises\<rparr>"

definition shown :: "'a \<Rightarrow> 'a region" where
  "shown t = \<lparr>is_visible = Returns True, content = Returns t\<rparr>"

definition sample_listing :: listing_page where
  "sample_listing =
     \<lparr>click = Returns (), wait_for_timeout = Returns (),
      name_attribute = Returns (Some ''Cafe''),
      address_region = hidden,
      website_region = \<lparr>is_visible = Raises, content = Raises\<rparr>,
      phone_number_region = shown ''555 0100'',
      review_count_region = shown ''1,234 reviews'',
      reviews_average_region = shown (Some ''4,5 stars''),
      url = ''https://maps/place/Cafe/@40.5,-74.25,17z/data''\<rparr>"

definition sample_business :: Business where
  "sample_business =
     \<lparr>name = Some ''Cafe'', address = None, website = Some [],
      phone_number = Some ''555 0100'', reviews_count = Some 1234,
      reviews_average = Some (Finite (9 / 2)), latitude = Some (Finite (81 / 2)),
      longitude = Some (Finite (- (297 / 4)))\<rparr>"

text \<open>A search whose results page shows one listing, scraped as the given page says.\<close>

definition single_search :: "listing_page \<Rightarrow> search_page" where
  "single_search page =
     \<lparr>results = \<lparr>selector_appears = True, counts = [1], links_at_end = 1\<rparr>,
      details = (\<lambda>listing. page)\<rparr>"

section \<open>Properties of the listing loader\<close>

lemma scroll_loop_append:
  "scroll_loop total' prev same polls xs = Some r \<Longrightarrow>
   scroll_loop total' prev same polls (xs @ ys) = Some r"
  by (induction total' prev same polls xs rule: scroll_loop.induct) (auto split: if_splits)

lemma scroll_loop_after_prefix:
  assumes "\<And>prev same polls. \<exists>r. scroll_loop total' prev same polls ys = Some r"
  shows "\<exists>r. scroll_loop total' prev same polls (xs @ ys) = Some r"
proof (induction xs arbitrary: prev same polls)
  case Nil
  show ?case using assms by simp
next
  case (Cons x xs)
  show ?case using Cons.IH by simp
qed

lemma scroll_loop_constant:
  "\<exists>r. scroll_loop total' prev same polls [c, c, c] = Some r"
  by simp

lemma scroll_loop_target:
  "total' \<le> int c \<Longrightarrow> \<exists>r. scroll_loop total' prev same polls [c] = Some r"
  by simp

text \<open>
  C1. With target 100 and the polls 5, 12, 12, 12 the loop breaks at the fourth poll, on
  the second consecutive poll that repeats the count before it; after three polls it has
  not stopped. With the twelve links still on the page the loader returns twelve listings.
\<close>

theorem scroll_loop_stall_example:
  "scroll_loop 100 0 0 0 [5, 12, 12, 12] = Some (Reached_end, 4, 12)
   \<and> scroll_loop 100 0 0 0 [5, 12, 12] = None
   \<and> scroll_and_load_listings
        \<lparr>selector_appears = True, counts = [5, 12, 12, 12], links_at_end = 12\<rparr> 100
       = Some (Inr (map Parent (all_links 12)))
   \<and> length (map Parent (all_links 12)) = 12"
  by (simp add: scroll_and_load_listings_def slice_to_def all_links_def)

theorem scroll_loop_third_poll_counterexample:
  "\<not> (\<exists>exit. scroll_loop 100 0 0 0 [5, 12, 12, 12] = Some (exit, 3, 12))
   \<and> scroll_loop 100 0 0 0 (take 3 [5, 12, 12, 12]) = None"
  by simp

text \<open>
  C8. With target 20 and the polls 5, 20, 45 the loop breaks at the second poll, where the
  count has reached the target; the third count is never polled. Whatever number of links,
  at least the twenty counted, \<^verbatim>\<open>all()\<close> then finds (20, or the 45 of a page that went on
  loading), the loader returns twenty locators: the parents of the first twenty links, and
  not the links.
\<close>

theorem scroll_and_load_target_example:
  "scroll_loop 20 0 0 0 [5, 20, 45] = Some (Reached_target, 2, 20)
   \<and> (\<forall>k. scroll_and_load_listings
          \<lparr>selector_appears = True, counts = [5, 20, 45], links_at_end = 20 + k\<rparr> 20
        = Some (Inr (map (\<lambda>i. Parent (Link i)) [0..<20])))
   \<and> length (map (\<lambda>i. Parent (Link i)) [0..<20]) = 20"
  by (simp add: scroll_and_load_listings_def slice_to_def all_links_def take_map)

text \<open>
  C10. When the counts reach the target at some poll \<open>n\<close>, or no longer change from poll
  \<open>n\<close> on, the loop exits, and it does so within the first \<open>n + 3\<close> polls.
\<close>

theorem scroll_loop_terminates:
  assumes "total' \<le> int (f n) \<or> (\<forall>m\<ge>n. f m = f n)"
  shows "\<exists>r. scroll_loop total' 0 0 0 (map f [0..<n + 3]) = Some r"
proof -
  have split: "map f [0..<n + 3] = map f [0..<n] @ [f n, f (n + 1), f (n + 2)]"
    by (simp add: numeral_3_eq_3)
  have tail: "\<exists>r. scroll_loop total' prev same polls [f n, f (n + 1), f (n + 2)] = Some r"
    for prev same polls
    using assms
  proof
    assume "total' \<le> int (f n)"
    then show ?thesis by simp
  next
    assume stable: "\<forall>m\<ge>n. f m = f n"
    have "f (n + 1) = f n"
      using stable [rule_format, of "n + 1"] by simp
    moreover have "f (n + 2) = f n"
      using stable [rule_format, of "n + 2"] by simp
    ultimately show ?thesis using scroll_loop_constant [of total' prev same polls "f n"] by simp
  qed
  show ?thesis
    unfolding split by (rule scroll_loop_after_prefix) (rule tail)
qed

theorem scroll_loop_terminates_witness:
  "(\<forall>m::nat. (if 1 + m = 0 then 5 else 12) = (if (1::nat) = 0 then 5 else (12::nat)))
   \<and> (\<exists>r. scroll_loop 100 0 0 0 (map (\<lambda>i. if i = 0 then 5 else 12) [0..<4]) = Some r)"
proof -
  have stable: "100 \<le> int (if (1::nat) = 0 then 5 else 12)
      \<or> (\<forall>m\<ge>1::nat. (if m = 0 then 5 else 12) = (if (1::nat) = 0 then 5 else (12::nat)))"
    by simp
  have "\<exists>r. scroll_loop 100 0 0 0 (map (\<lambda>i. if i = 0 then 5 else 12) [0..<1 + 3]) = Some r"
    using scroll_loop_terminates [of 100 "\<lambda>i. if i = 0 then 5 else 12" 1, OF stable] .
  then show ?thesis by simp
qed

section \<open>Properties of strings and numbers\<close>

lemmas number_defs =
  py_int_def py_float_def strip_with_def is_space_def is_number_space_def is_digit_def
  digit_value_def digitpart_def limited_digitpart_def max_str_digits_def to_lower_def digits_value_def decimal_value_def split_sign_def
  parse_exponent_def parse_number_def replace_char_def item_def leading_token_def

lemma item_first: "xs \<noteq> [] \<Longrightarrow> item xs 0 = Some (hd xs)"
  by (cases xs) (auto simp: item_def)

lemma item_first_Nil: "item [] 0 = None"
  by (simp add: item_def)

lemma item_second: "item xs 1 = (case xs of a # b # _ \<Rightarrow> Some b | _ \<Rightarrow> None)"
  by (auto simp: item_def split: list.splits)

lemma item_last: "xs \<noteq> [] \<Longrightarrow> item xs (- 1) = Some (last xs)"
  by (cases xs rule: rev_cases) (auto simp: item_def nth_append)

lemma dropWhile_none: "\<forall>c\<in>set xs. \<not> P c \<Longrightarrow> dropWhile P xs = xs"
  by (cases xs) auto

lemma dropWhile_no_char: "(dropWhile (\<lambda>x. x \<noteq> c) s = []) = (c \<notin> set s)"
  by (induction s) auto

lemma set_strip_with: "set (strip_with sp s) \<subseteq> set s"
  by (auto simp: strip_with_def dest!: set_dropWhileD)

lemma strip_with_id: "\<forall>c\<in>set s. \<not> sp c \<Longrightarrow> strip_with sp s = s"
  by (simp add: strip_with_def dropWhile_none)

lemma replace_char_delete: "replace_char c [] s = filter (\<lambda>x. x \<noteq> c) s"
  by (induction s) (auto simp: replace_char_def)

lemma number_space_is_space: "is_number_space c \<Longrightarrow> is_space c"
  by (auto simp: is_number_space_def is_space_def Let_def)

subsection \<open>Splitting\<close>

lemma split_on_not_Nil: "split_on sep s \<noteq> []"
  by (induction sep s rule: split_on.induct) (auto split: list.splits)

text \<open>With a separator of one character, the first piece ends at its first occurrence.\<close>

lemma split_on_char:
  "split_on [c] s = takeWhile (\<lambda>x. x \<noteq> c) s #
     (case dropWhile (\<lambda>x. x \<noteq> c) s of [] \<Rightarrow> [] | _ # rest \<Rightarrow> split_on [c] rest)"
  by (induction s) (auto split: list.splits)

lemma find_append_cases:
  "find P (xs @ ys) = (case find P xs of None \<Rightarrow> find P ys | Some x \<Rightarrow> Some x)"
  by (induction xs) auto

text \<open>
  The last piece of a split at \<^verbatim>\<open>/@\<close> starts after the shortest suffix that begins with
  \<^verbatim>\<open>/@\<close>: two occurrences of \<^verbatim>\<open>/@\<close> cannot overlap, so the scan from the left finds the
  last one.
\<close>

lemma split_on_marker:
  "(find (prefix ''/@'') (suffixes s) = None \<longrightarrow> split_on ''/@'' s = [s])
   \<and> (\<forall>t. find (prefix ''/@'') (suffixes s) = Some t \<longrightarrow>
         last (split_on ''/@'' s) = drop 2 t \<and> 2 \<le> length (split_on ''/@'' s))"
proof (induction s rule: length_induct)
  case (1 s)
  show ?case
  proof (cases s)
    case Nil
    then show ?thesis by simp
  next
    case (Cons c cs)
    show ?thesis
    proof (cases "prefix ''/@'' s")
      case True
      then obtain r where s: "s = CHR ''/'' # CHR ''@'' # r"
        by (auto simp: prefix_def)
      have ih: "(find (prefix ''/@'') (suffixes r) = None \<longrightarrow> split_on ''/@'' r = [r])
         \<and> (\<forall>t. find (prefix ''/@'') (suffixes r) = Some t \<longrightarrow>
             last (split_on ''/@'' r) = drop 2 t \<and> 2 \<le> length (split_on ''/@'' r))"
        using 1 s by simp
      have sp: "split_on ''/@'' s = [] # split_on ''/@'' r"
        using s by simp
      show ?thesis
        using ih sp s split_on_not_Nil [of "''/@''" r]
        by (auto simp: find_append_cases split: option.splits)
    next
      case False
      have ih: "(find (prefix ''/@'') (suffixes cs) = None \<longrightarrow> split_on ''/@'' cs = [cs])
         \<and> (\<forall>t. find (prefix ''/@'') (suffixes cs) = Some t \<longrightarrow>
             last (split_on ''/@'' cs) = drop 2 t \<and> 2 \<le> length (split_on ''/@'' cs))"
        using 1 Cons by simp
      have sp: "split_on ''/@'' s =
          (case split_on ''/@'' cs of [] \<Rightarrow> [[c]] | piece # pieces \<Rightarrow> (c # piece) # pieces)"
        using False Cons by auto
      show ?thesis
        using ih sp False Cons
        by (auto simp: find_append_cases split: option.splits list.splits)
    qed
  qed
qed

lemma last_split_on_marker: "last (split_on ''/@'' u) = after_last_marker u"
  using split_on_marker [of u]
  by (cases "find (prefix ''/@'') (suffixes u)") (auto simp: after_last_marker_def)

lemma item_split_ws:
  "item (split_ws s) 0 = (if leading_token s = [] then None else Some (leading_token s))"
  by (induction s rule: split_ws.induct) (auto simp: leading_token_def item_first_Nil item_first)

lemma leading_token_no_space: "\<forall>c\<in>set (leading_token s). \<not> is_space c"
  unfolding leading_token_def using set_takeWhileD by fastforce

lemma set_leading_token: "set (leading_token s) \<subseteq> set s"
  unfolding leading_token_def using set_takeWhileD set_dropWhileD by fastforce

subsection \<open>Integers\<close>

lemma adjacent_underscores_Cons:
  "adjacent_underscores (c # cs) =
     ((c = CHR ''_'' \<and> cs \<noteq> [] \<and> hd cs = CHR ''_'') \<or> adjacent_underscores cs)"
  by (cases cs) (auto simp: adjacent_underscores_def)

lemma adjacent_underscores_Nil: "\<not> adjacent_underscores []"
  by (simp add: adjacent_underscores_def)

lemma underscore_not_digit: "\<not> is_digit (CHR ''_'')"
  by (simp add: is_digit_def)

text \<open>
  What \<open>digit_run\<close> accepts after an underscore or a digit, and the number it returns: the
  one its digits write after the digits read before.
\<close>

lemma digit_run_grouped:
  "digit_run u acc s =
     (if list_all (\<lambda>c. is_digit c \<or> c = CHR ''_'') s \<and> \<not> adjacent_underscores s
         \<and> (if s = [] then \<not> u else is_digit (last s) \<and> (u \<longrightarrow> hd s \<noteq> CHR ''_''))
      then Some (foldl (\<lambda>acc c. 10 * acc + digit_value c) acc (filter is_digit s))
      else None)"
proof (induction s arbitrary: u acc)
  case Nil
  show ?case by (simp add: adjacent_underscores_Nil)
next
  case (Cons c cs)
  note step = Cons.IH adjacent_underscores_Cons adjacent_underscores_Nil underscore_not_digit
  show ?case
  proof (cases "is_digit c")
    case True
    then have "c \<noteq> CHR ''_''" using underscore_not_digit by auto
    with True show ?thesis
      by (auto simp: step)
  next
    case False
    show ?thesis
    proof (cases "c = CHR ''_'' \<and> \<not> u")
      case True
      with False show ?thesis
        by (auto simp: step)
    next
      case other: False
      with False show ?thesis by auto
    qed
  qed
qed

lemma digitpart_grouped:
  "digitpart t =
     (if grouped_digits t then Some (digits_value (filter is_digit t)) else None)"
proof (cases t)
  case Nil
  then show ?thesis by (simp add: digitpart_def grouped_digits_def)
next
  case (Cons c cs)
  show ?thesis
  proof (cases "is_digit c")
    case True
    then have "c \<noteq> CHR ''_''" using underscore_not_digit by auto
    with True Cons show ?thesis
      by (auto simp: digitpart_def grouped_digits_def digit_run_grouped digits_value_def
           adjacent_underscores_Cons adjacent_underscores_Nil)
  next
    case False
    with Cons show ?thesis by (simp add: digitpart_def grouped_digits_def)
  qed
qed

text \<open>
  \<^verbatim>\<open>int\<close> on a text without the white space it skips: it reads exactly the integer
  texts, and returns their value.
\<close>

lemma py_int_integer_text:
  assumes "\<forall>c\<in>set t. \<not> is_number_space c"
  shows "py_int t = (if integer_text t then Some (integer_value t) else None)"
proof -
  have strip: "strip_with is_number_space t = t"
    using assms by (rule strip_with_id)
  show ?thesis
  proof (cases t)
    case Nil
    then show ?thesis
      by (simp add: py_int_def strip_with_def integer_text_def signed_def grouped_digits_def)
  next
    case (Cons c cs)
    have sign: "\<not> is_digit (CHR ''-'')" "\<not> is_digit (CHR ''+'')"
      by (simp_all add: is_digit_def)
    show ?thesis
    proof (cases "c = CHR ''-'' \<or> c = CHR ''+''")
      case True
      then show ?thesis
        using strip Cons sign
        by (auto simp: py_int_def integer_text_def integer_value_def signed_def
            limited_digitpart_def digitpart_grouped)
    next
      case False
      then show ?thesis
        using strip Cons
        by (auto simp: py_int_def integer_text_def integer_value_def signed_def
            limited_digitpart_def digitpart_grouped)
    qed
  qed
qed

lemma py_int_nonneg:
  assumes "py_int s = Some n" and "CHR ''-'' \<notin> set s"
  shows "0 \<le> n"
proof -
  let ?t = "strip_with is_number_space s"
  from assms(1) obtain c cs where t: "?t = c # cs"
    by (cases ?t) (auto simp: py_int_def)
  have "c \<in> set s" using t set_strip_with [of is_number_space s] by auto
  then have "c \<noteq> CHR ''-''" using assms(2) by auto
  then show ?thesis using assms(1) t by (auto simp: py_int_def split: if_splits)
qed

section \<open>Evaluation and the shape of a scraped record\<close>

lemmas extractor_defs =
  scrape_business_details_def text_field_def reviews_count_field_def reviews_average_field_def
  reviews_count_of_text_def reviews_average_of_text_def or_empty_def
  extract_coordinates_from_url_def coordinates_of_def hidden_def shown_def

lemma scrape_sample_listing: "scrape_business_details sample_listing = Some sample_business"
  by (simp add: sample_listing_def sample_business_def extractor_defs number_defs)

lemma scrape_business_details_Some:
  assumes "scrape_business_details page = Some b"
  shows "click page = Returns ()" and "wait_for_timeout page = Returns ()"
    and "\<exists>label. name_attribute page = Returns label \<and> name b = Some (or_empty label)"
    and "address b = text_field (address_region page) None"
    and "website b = text_field (website_region page) None"
    and "phone_number b = text_field (phone_number_region page) None"
    and "reviews_count b = reviews_count_field (review_count_region page) None"
    and "reviews_average b = reviews_average_field (reviews_average_region page) None"
    and "latitude b = fst (extract_coordinates_from_url (url page))"
    and "longitude b = snd (extract_coordinates_from_url (url page))"
  using assms
  by (auto simp: scrape_business_details_def Let_def split: outcome.splits prod.splits)

lemma scrape_business_details_None:
  "scrape_business_details page = None \<longleftrightarrow>
     click page = Raises \<or> wait_for_timeout page = Raises \<or> name_attribute page = Raises"
  by (auto simp: scrape_business_details_def Let_def split: outcome.splits prod.splits)

section \<open>Properties of the coordinate extractor\<close>

lemma coordinates_of_examined: "coordinates_of u = Some (examined_text u)"
  by (simp add: coordinates_of_def examined_text_def item_last item_first split_on_not_Nil
      last_split_on_marker split_on_char [of "CHR ''/''"])

lemma extract_coordinates_both_or_neither:
  "(fst (extract_coordinates_from_url u) = None) = (snd (extract_coordinates_from_url u) = None)"
  by (auto simp: extract_coordinates_from_url_def split: option.splits prod.splits)

text \<open>The two parts that are read from a text \<^verbatim>\<open>lat,lng,...\<close>.\<close>

lemma coordinate_parts:
  "Option.bind (Option.bind (item (split_on '','' seg) 0) py_float) (\<lambda>lat.
     Option.bind (Option.bind (item (split_on '','' seg) 1) py_float) (\<lambda>lng.
       Some (lat, lng))) =
     (if CHR '','' \<in> set seg then
        (case (py_float (first_part seg), py_float (second_part seg)) of
           (Some lat, Some lng) \<Rightarrow> Some (lat, lng)
         | _ \<Rightarrow> None)
      else None)"
proof -
  have parts: "split_on '','' seg = first_part seg #
      (case dropWhile (\<lambda>x. x \<noteq> CHR '','') seg of [] \<Rightarrow> []
       | _ # rest \<Rightarrow> split_on '','' rest)"
    unfolding first_part_def by (rule split_on_char)
  show ?thesis
  proof (cases "CHR '','' \<in> set seg")
    case False
    then have none: "dropWhile (\<lambda>x. x \<noteq> CHR '','') seg = []"
      using dropWhile_no_char [of "CHR '',''" seg] by blast
    have "split_on '','' seg = [first_part seg]"
      using parts unfolding none by simp
    then show ?thesis
      using False by (simp add: item_second split: Option.bind_splits)
  next
    case True
    then obtain x rest where dw: "dropWhile (\<lambda>x. x \<noteq> CHR '','') seg = x # rest"
      using dropWhile_no_char [of "CHR '',''" seg]
      by (cases "dropWhile (\<lambda>x. x \<noteq> CHR '','') seg") auto
    have second: "second_part seg = hd (split_on '','' rest)"
      by (simp add: second_part_def dw split_on_char [of "CHR '',''" rest])
    have "split_on '','' seg = first_part seg # split_on '','' rest"
      using parts dw by simp
    then have items: "item (split_on '','' seg) 0 = Some (first_part seg)"
      "item (split_on '','' seg) 1 = Some (second_part seg)"
      using split_on_not_Nil [of "'',''" rest] second
      by (auto simp: item_first item_second split: list.splits)
    show ?thesis
      using True by (simp add: items split: option.splits Option.bind_splits)
  qed
qed

lemma find_suffixes_marker_Cons:
  "find (prefix ''/@'') (suffixes s) = None \<Longrightarrow>
   find (prefix ''/@'') (suffixes (CHR ''/'' # CHR ''@'' # s)) = Some (CHR ''/'' # CHR ''@'' # s)"
  by (simp add: find_append_cases)

lemma find_suffixes_append:
  "find P (suffixes ys) = Some t \<Longrightarrow> find P (suffixes (xs @ ys)) = Some t"
  by (induction xs) (auto simp: find_append_cases)

text \<open>After a \<^verbatim>\<open>/@\<close> that no other \<^verbatim>\<open>/@\<close> follows, the text looked at starts.\<close>

lemma after_last_marker_append:
  assumes "find (prefix ''/@'') (suffixes s) = None"
  shows "after_last_marker (pre @ ''/@'' @ s) = s"
proof -
  have "find (prefix ''/@'') (suffixes (''/@'' @ s)) = Some (''/@'' @ s)"
    using find_suffixes_marker_Cons [OF assms] by simp
  then have "find (prefix ''/@'') (suffixes (pre @ ''/@'' @ s)) = Some (''/@'' @ s)"
    by (rule find_suffixes_append)
  then show ?thesis
    by (simp add: after_last_marker_def)
qed

lemma takeWhile_until:
  "c \<notin> set seg \<Longrightarrow> rest = [] \<or> hd rest = c \<Longrightarrow>
   takeWhile (\<lambda>x. x \<noteq> c) (seg @ rest) = seg"
  by (cases rest) (auto simp: takeWhile_append)

text \<open>
  A string whose last \<^verbatim>\<open>/@\<close> starts a segment \<^verbatim>\<open>lat,lng,zoom\<close> that ends at the next
  \<^verbatim>\<open>/\<close> or at the end of the string: the extractor returns the floats of \<^verbatim>\<open>lat\<close> and
  \<^verbatim>\<open>lng\<close> when both are floats, and nothing when one of them is not.
\<close>

lemma extract_coordinates_last_segment:
  assumes last: "find (prefix ''/@'') (suffixes (lat @ '','' @ lng @ '','' @ zoom @ rest)) = None"
    and seg: "CHR ''/'' \<notin> set (lat @ lng @ zoom)" "CHR '','' \<notin> set (lat @ lng)"
    and rest: "rest = [] \<or> hd rest = CHR ''/''"
  shows "extract_coordinates_from_url (pre @ ''/@'' @ lat @ '','' @ lng @ '','' @ zoom @ rest) =
     (case (py_float lat, py_float lng) of
        (Some x, Some y) \<Rightarrow> (Some x, Some y)
      | _ \<Rightarrow> (None, None))"
proof -
  let ?seg = "lat @ '','' @ lng @ '','' @ zoom"
  let ?u = "pre @ ''/@'' @ lat @ '','' @ lng @ '','' @ zoom @ rest"
  have "after_last_marker ?u = ?seg @ rest"
    using after_last_marker_append [OF last, of pre] by simp
  moreover have "CHR ''/'' \<notin> set ?seg"
    using seg(1) by simp
  ultimately have examined: "examined_text ?u = ?seg"
    using takeWhile_until [of "CHR ''/''" ?seg rest] rest by (simp add: examined_text_def)
  have first: "first_part ?seg = lat"
    using seg(2) by (simp add: first_part_def takeWhile_append)
  have "dropWhile (\<lambda>c. c \<noteq> CHR '','') ?seg = '','' @ lng @ '','' @ zoom"
    using seg(2) by (simp add: dropWhile_append)
  then have second: "second_part ?seg = lng"
    using seg(2) by (simp add: second_part_def takeWhile_append)
  have "coordinates_of ?u = Some ?seg"
    using coordinates_of_examined [of ?u] examined by simp
  then show ?thesis
    unfolding extract_coordinates_from_url_def
    by (simp only: Option.bind.simps coordinate_parts first second)
       (simp split: option.splits)
qed

text \<open>
  C5. The extractor is a total function of the string and raises nothing. It returns two
  floats exactly when the text after the last \<^verbatim>\<open>/@\<close> of the string (the whole string
  when it has none), up to the next \<^verbatim>\<open>/\<close>, has a comma and \<^verbatim>\<open>float\<close> accepts both
  the part before the first comma and the part after it up to the second; they are the
  floats of these parts. For every other string it returns \<^verbatim>\<open>(None, None)\<close>.
\<close>

theorem extract_coordinates_examined_text:
  "extract_coordinates_from_url u =
     (if CHR '','' \<in> set (examined_text u) then
        (case (py_float (first_part (examined_text u)),
               py_float (second_part (examined_text u))) of
           (Some lat, Some lng) \<Rightarrow> (Some lat, Some lng)
         | _ \<Rightarrow> (None, None))
      else (None, None))"
  unfolding extract_coordinates_from_url_def
  by (simp only: coordinates_of_examined Option.bind.simps coordinate_parts)
     (simp split: option.splits)

text \<open>
  C5 as the specification words it fails twice: a string with no \<^verbatim>\<open>/@\<close> at all is read
  from its start, so \<^verbatim>\<open>1.5,2.5\<close> gives two floats; and only the last \<^verbatim>\<open>/@\<close> counts, so
  a string that holds a well-formed segment and a later \<^verbatim>\<open>/@\<close> gives nothing.
\<close>

theorem extract_coordinates_counterexample:
  "CHR ''@'' \<notin> set ''1.5,2.5''
   \<and> extract_coordinates_from_url ''1.5,2.5'' = (Some (Finite (3 / 2)), Some (Finite (5 / 2)))
   \<and> extract_coordinates_from_url ''https://maps/@1.5,2.5,3z/@'' = (None, None)"
  by (simp add: extractor_defs number_defs)

text \<open>
  C6. In a record the extractor returns, latitude and longitude are both absent, or both
  present, and then they are the pair the coordinate extractor returns for the URL.
\<close>

theorem coordinates_both_or_neither:
  assumes "scrape_business_details page = Some b"
  shows "(latitude b = None \<and> longitude b = None)
       \<or> (\<exists>lat lng. latitude b = Some lat \<and> longitude b = Some lng
            \<and> extract_coordinates_from_url (url page) = (Some lat, Some lng))"
proof -
  obtain lat lng where pair: "extract_coordinates_from_url (url page) = (lat, lng)"
    by (cases "extract_coordinates_from_url (url page)")
  have "latitude b = lat" and "longitude b = lng"
    using scrape_business_details_Some(9,10) [OF assms] pair by simp_all
  moreover have "(lat = None) = (lng = None)"
    using extract_coordinates_both_or_neither [of "url page"] pair by simp
  ultimately show ?thesis
    using pair by (cases lat; cases lng) auto
qed

theorem coordinates_both_or_neither_witness:
  "scrape_business_details sample_listing = Some sample_business
   \<and> latitude sample_business = Some (Finite (81 / 2))
   \<and> longitude sample_business = Some (Finite (- (297 / 4)))
   \<and> extract_coordinates_from_url (url sample_listing)
       = (Some (Finite (81 / 2)), Some (Finite (- (297 / 4))))"
proof -
  have "latitude sample_business \<noteq> None"
    by (simp add: sample_business_def)
  then show ?thesis
    using coordinates_both_or_neither [OF scrape_sample_listing] scrape_sample_listing
    by (auto simp: sample_business_def)
qed

section \<open>Properties of the detail extractor\<close>

text \<open>
  C3. On the sample listing the address region is not visible and the check of the website
  region raises. The website becomes the empty string and the other fields are read, but
  the address stays \<^verbatim>\<open>None\<close>: no branch assigns it when \<^verbatim>\<open>is_visible\<close> returns
  \<^verbatim>\<open>False\<close>.
\<close>

theorem hidden_address_stays_None:
  "map_option address (scrape_business_details sample_listing) = Some None
   \<and> map_option website (scrape_business_details sample_listing) = Some (Some [])
   \<and> map_option phone_number (scrape_business_details sample_listing) = Some (Some ''555 0100'')
   \<and> map_option reviews_count (scrape_business_details sample_listing) = Some (Some 1234)"
  by (simp add: scrape_sample_listing sample_business_def)

lemma reviews_count_of_text_token:
  "reviews_count_of_text s =
     (if leading_token s = [] then None
      else py_int (filter (\<lambda>c. c \<noteq> CHR '','') (leading_token s)))"
proof -
  have "strip_with is_space (filter (\<lambda>c. c \<noteq> CHR '','') (leading_token s))
      = filter (\<lambda>c. c \<noteq> CHR '','') (leading_token s)"
    using leading_token_no_space [of s] by (intro strip_with_id) auto
  then show ?thesis
    by (simp add: reviews_count_of_text_def item_split_ws replace_char_delete)
qed

text \<open>The count is read from the well-formed texts, and from no other.\<close>

lemma reviews_count_of_text_value:
  "reviews_count_of_text s =
     (if well_formed_review_count s then Some (integer_value (number_text s)) else None)"
proof (cases "leading_token s = []")
  case True
  then show ?thesis
    by (simp add: reviews_count_of_text_token well_formed_review_count_def number_text_def
        integer_text_def signed_def grouped_digits_def)
next
  case False
  have "\<forall>c\<in>set (number_text s). \<not> is_number_space c"
    using leading_token_no_space [of s] number_space_is_space
    by (auto simp: number_text_def)
  then show ?thesis
    using False
    by (simp add: reviews_count_of_text_token py_int_integer_text well_formed_review_count_def
        flip: number_text_def)
qed

lemma replace_char_map:
  "replace_char old [new] s = map (\<lambda>c. if c = old then new else c) s"
  by (induction s) (auto simp: replace_char_def)

lemma reviews_average_of_text_token:
  "reviews_average_of_text s =
     (if leading_token s = [] then None else py_float (average_text s))"
proof -
  have "\<not> is_space (CHR ''.'')"
    by (simp add: is_space_def)
  then have "\<forall>c\<in>set (average_text s). \<not> is_space c"
    using leading_token_no_space [of s] by (auto simp: average_text_def)
  then have "strip_with is_space (average_text s) = average_text s"
    by (rule strip_with_id)
  then show ?thesis
    by (simp add: reviews_average_of_text_def item_split_ws replace_char_map average_text_def)
qed

lemma reviews_count_of_text_nonneg:
  assumes "reviews_count_of_text s = Some n" and "CHR ''-'' \<notin> set s"
  shows "0 \<le> n"
proof -
  from assms(1) have "py_int (filter (\<lambda>c. c \<noteq> CHR '','') (leading_token s)) = Some n"
    by (auto simp: reviews_count_of_text_token split: if_splits)
  moreover have "CHR ''-'' \<notin> set (filter (\<lambda>c. c \<noteq> CHR '','') (leading_token s))"
    using assms(2) set_leading_token [of s] by auto
  ultimately show ?thesis by (rule py_int_nonneg)
qed

lemma reviews_count_field_shown: "reviews_count_field (shown s) before = reviews_count_of_text s"
  by (simp add: reviews_count_field_def shown_def)

lemma reviews_count_field_Some:
  "reviews_count_field region None = Some n \<Longrightarrow>
   \<exists>s. content region = Returns s \<and> reviews_count_of_text s = Some n"
  by (auto simp: reviews_count_field_def split: outcome.splits bool.splits)

lemma reviews_average_field_Some:
  "reviews_average_field region None = Some f \<Longrightarrow>
   \<exists>s. content region = Returns (Some s) \<and> reviews_average_of_text s = Some f"
  by (auto simp: reviews_average_field_def split: outcome.splits bool.splits option.splits)

lemma reviews_count_field_missing:
  "is_visible region \<noteq> Returns True \<Longrightarrow> reviews_count_field region None = None"
  by (auto simp: reviews_count_field_def split: outcome.splits bool.splits)

text \<open>
  C4. In a record the extractor returns, the review count is absent, or the integer that
  \<^verbatim>\<open>int\<close> reads from the displayed text, and it is not negative when that text has no
  minus sign; the average is absent, or the float that \<^verbatim>\<open>float\<close> reads from the
  attribute. No range is checked.
\<close>

theorem review_fields_as_read:
  assumes "scrape_business_details page = Some b"
  shows "(reviews_count b = None
          \<or> (\<exists>s n. content (review_count_region page) = Returns s
                \<and> reviews_count_of_text s = Some n \<and> reviews_count b = Some n
                \<and> (CHR ''-'' \<in> set s \<or> 0 \<le> n)))
       \<and> (reviews_average b = None
          \<or> (\<exists>s f. content (reviews_average_region page) = Returns (Some s)
                \<and> reviews_average_of_text s = Some f \<and> reviews_average b = Some f))"
proof -
  have count: "reviews_count b = reviews_count_field (review_count_region page) None"
    and average: "reviews_average b = reviews_average_field (reviews_average_region page) None"
    using scrape_business_details_Some(7,8) [OF assms] by simp_all
  have "reviews_count b = None
      \<or> (\<exists>s n. content (review_count_region page) = Returns s
            \<and> reviews_count_of_text s = Some n \<and> reviews_count b = Some n
            \<and> (CHR ''-'' \<in> set s \<or> 0 \<le> n))"
  proof (cases "reviews_count b")
    case None
    then show ?thesis by simp
  next
    case (Some n)
    then obtain s where "content (review_count_region page) = Returns s"
      and "reviews_count_of_text s = Some n"
      using reviews_count_field_Some [of "review_count_region page" n] count by auto
    then show ?thesis
      using Some reviews_count_of_text_nonneg [of s n] by auto
  qed
  moreover have "reviews_average b = None
      \<or> (\<exists>s f. content (reviews_average_region page) = Returns (Some s)
            \<and> reviews_average_of_text s = Some f \<and> reviews_average b = Some f)"
  proof (cases "reviews_average b")
    case None
    then show ?thesis by simp
  next
    case (Some f)
    then obtain s where "content (reviews_average_region page) = Returns (Some s)"
      and "reviews_average_of_text s = Some f"
      using reviews_average_field_Some [of "reviews_average_region page" f] average by auto
    then show ?thesis
      using Some by auto
  qed
  ultimately show ?thesis by simp
qed

theorem review_fields_as_read_witness:
  "scrape_business_details sample_listing = Some sample_business
   \<and> reviews_count sample_business = Some 1234
   \<and> (\<exists>s. content (review_count_region sample_listing) = Returns s
        \<and> reviews_count_of_text s = Some 1234)
   \<and> (\<exists>s. content (reviews_average_region sample_listing) = Returns (Some s)
        \<and> reviews_average_of_text s = Some (Finite (9 / 2)))"
  using review_fields_as_read [OF scrape_sample_listing] scrape_sample_listing
  by (auto simp: sample_business_def)

text \<open>
  C4 as the specification words it fails: a displayed count \<^verbatim>\<open>-5 reviews\<close> gives the count \<open>- 5\<close>, and
  an attribute \<^verbatim>\<open>9,9 stars\<close> gives the average 9.9.
\<close>

theorem review_fields_out_of_range_counterexample:
  "map_option reviews_count (scrape_business_details
      (sample_listing\<lparr>review_count_region := shown ''-5 reviews''\<rparr>)) = Some (Some (- 5))
   \<and> map_option reviews_average (scrape_business_details
      (sample_listing\<lparr>reviews_average_region := shown (Some ''9,9 stars'')\<rparr>))
       = Some (Some (Finite (99 / 10)))
   \<and> \<not> (99 / 10 \<le> (5 :: rat))"
  by (simp add: sample_listing_def extractor_defs number_defs)

lemma reviews_average_field_shown:
  "reviews_average_field (shown (Some s)) before = reviews_average_of_text s"
  by (simp add: reviews_average_field_def shown_def)

lemma reviews_count_field_raises:
  "content region = Raises \<Longrightarrow> reviews_count_field region None = None"
  by (auto simp: reviews_count_field_def split: outcome.splits bool.splits)

text \<open>
  C7. In a record the extractor returns, the count is read from the displayed text so: the
  text \<^verbatim>\<open>1,234 reviews\<close> gives 1234; every well-formed text gives the integer that its
  leading token writes once the separators are taken out; every malformed text gives no
  count, and so does a region that is not shown or cannot be read. The average is what
  \<^verbatim>\<open>float\<close> reads from the leading token of the attribute with its commas turned into
  points, and nothing when the attribute has no token: \<^verbatim>\<open>4,5 stars\<close> gives 4.5, and the
  other sample attributes give the values listed.
\<close>

theorem review_numbers_parsed:
  assumes "scrape_business_details page = Some b"
  shows "(review_count_region page = shown ''1,234 reviews'' \<longrightarrow> reviews_count b = Some 1234)
       \<and> (\<forall>s. review_count_region page = shown s \<and> well_formed_review_count s \<longrightarrow>
             reviews_count b = Some (integer_value (number_text s)))
       \<and> (\<forall>s. review_count_region page = shown s \<and> malformed_review_count s \<longrightarrow>
             reviews_count b = None)
       \<and> (is_visible (review_count_region page) \<noteq> Returns True \<longrightarrow> reviews_count b = None)
       \<and> (content (review_count_region page) = Raises \<longrightarrow> reviews_count b = None)
       \<and> (reviews_average_region page = shown (Some ''4,5 stars'') \<longrightarrow>
             reviews_average b = Some (Finite (9 / 2)))
       \<and> (\<forall>s. reviews_average_region page = shown (Some s) \<longrightarrow>
             reviews_average b =
               (if leading_token s = [] then None else py_float (average_text s)))
       \<and> map reviews_average_of_text
            [''4.5 stars'', ''3,75 stars'', ''5 stars'', '',5 stars'', ''1e1 stars'', ''-2,5'',
             ''1_0,5'', ''nan stars'', ''inf'', ''stars'', [], ''4,5,5'']
          = [Some (Finite (9 / 2)), Some (Finite (15 / 4)), Some (Finite 5),
             Some (Finite (1 / 2)), Some (Finite 10), Some (Finite (- (5 / 2))),
             Some (Finite (21 / 2)), Some NaN, Some Inf_pos, None, None, None]"
proof -
  have count: "reviews_count b = reviews_count_field (review_count_region page) None"
    and average: "reviews_average b = reviews_average_field (reviews_average_region page) None"
    using scrape_business_details_Some(7,8) [OF assms] by simp_all
  have "reviews_count_of_text ''1,234 reviews'' = Some 1234"
    by (simp add: reviews_count_of_text_def number_defs)
  then have example: "review_count_region page = shown ''1,234 reviews'' \<longrightarrow>
      reviews_count b = Some 1234"
    by (simp add: count reviews_count_field_shown)
  have well: "\<forall>s. review_count_region page = shown s \<and> well_formed_review_count s \<longrightarrow>
      reviews_count b = Some (integer_value (number_text s))"
    by (simp add: count reviews_count_field_shown reviews_count_of_text_value)
  have mal: "\<forall>s. review_count_region page = shown s \<and> malformed_review_count s \<longrightarrow>
      reviews_count b = None"
    by (simp add: count reviews_count_field_shown reviews_count_of_text_value
        malformed_review_count_def)
  have missing: "is_visible (review_count_region page) \<noteq> Returns True \<longrightarrow>
      reviews_count b = None"
    by (simp add: count reviews_count_field_missing)
  have unread: "content (review_count_region page) = Raises \<longrightarrow> reviews_count b = None"
    by (simp add: count reviews_count_field_raises)
  have "reviews_average_of_text ''4,5 stars'' = Some (Finite (9 / 2))"
    by (simp add: reviews_average_of_text_def number_defs)
  then have avg: "reviews_average_region page = shown (Some ''4,5 stars'') \<longrightarrow>
      reviews_average b = Some (Finite (9 / 2))"
    by (simp add: average reviews_average_field_shown)
  have general: "\<forall>s. reviews_average_region page = shown (Some s) \<longrightarrow>
      reviews_average b = (if leading_token s = [] then None else py_float (average_text s))"
    by (simp add: average reviews_average_field_shown reviews_average_of_text_token)
  have samples: "map reviews_average_of_text
      [''4.5 stars'', ''3,75 stars'', ''5 stars'', '',5 stars'', ''1e1 stars'', ''-2,5'',
       ''1_0,5'', ''nan stars'', ''inf'', ''stars'', [], ''4,5,5'']
    = [Some (Finite (9 / 2)), Some (Finite (15 / 4)), Some (Finite 5),
       Some (Finite (1 / 2)), Some (Finite 10), Some (Finite (- (5 / 2))),
       Some (Finite (21 / 2)), Some NaN, Some Inf_pos, None, None, None]"
    by (simp add: reviews_average_of_text_def number_defs)
  from example well mal missing unread avg general samples show ?thesis by blast
qed

theorem review_numbers_parsed_witness:
  "scrape_business_details sample_listing = Some sample_business
   \<and> well_formed_review_count ''1,234 reviews''
   \<and> integer_value (number_text ''1,234 reviews'') = 1234
   \<and> reviews_count sample_business = Some 1234
   \<and> reviews_average sample_business = Some (Finite (9 / 2))
   \<and> py_float (average_text ''4,5 stars'') = Some (Finite (9 / 2))
   \<and> malformed_review_count ''(1,234)''
   \<and> map_option reviews_count (scrape_business_details
        (sample_listing\<lparr>review_count_region := shown ''(1,234)''\<rparr>)) = Some None
   \<and> malformed_review_count ''12-34 reviews''
   \<and> map_option reviews_count (scrape_business_details
        (sample_listing\<lparr>review_count_region := shown ''12-34 reviews''\<rparr>)) = Some None
   \<and> map_option reviews_count (scrape_business_details
        (sample_listing\<lparr>review_count_region := hidden\<rparr>)) = Some None
   \<and> map_option reviews_count (scrape_business_details
        (sample_listing\<lparr>review_count_region :=
           \<lparr>is_visible = Returns True, content = Raises\<rparr>\<rparr>)) = Some None"
proof -
  let ?bad = "sample_listing\<lparr>review_count_region := shown ''(1,234)''\<rparr>"
  let ?dash = "sample_listing\<lparr>review_count_region := shown ''12-34 reviews''\<rparr>"
  let ?none = "sample_listing\<lparr>review_count_region := hidden\<rparr>"
  let ?unread = "sample_listing\<lparr>review_count_region :=
      \<lparr>is_visible = Returns True, content = Raises\<rparr>\<rparr>"
  note spec_defs = well_formed_review_count_def malformed_review_count_def integer_text_def
    integer_value_def number_text_def signed_def grouped_digits_def adjacent_underscores_def
    average_text_def
  have well: "well_formed_review_count ''1,234 reviews''"
    by (simp add: spec_defs number_defs)
  have val: "integer_value (number_text ''1,234 reviews'') = 1234"
    by (simp add: spec_defs number_defs)
  have mal: "malformed_review_count ''(1,234)''" "malformed_review_count ''12-34 reviews''"
    by (simp_all add: spec_defs number_defs)
  have token: "leading_token ''4,5 stars'' \<noteq> []"
    by (simp add: number_defs)
  have regions: "review_count_region sample_listing = shown ''1,234 reviews''"
    "reviews_average_region sample_listing = shown (Some ''4,5 stars'')"
    "review_count_region ?bad = shown ''(1,234)''"
    "review_count_region ?dash = shown ''12-34 reviews''"
    "is_visible (review_count_region ?none) \<noteq> Returns True"
    "content (review_count_region ?unread) = Raises"
    by (simp_all add: sample_listing_def hidden_def)
  obtain b1 where b1: "scrape_business_details ?bad = Some b1"
    by (cases "scrape_business_details ?bad")
       (auto simp: scrape_business_details_None sample_listing_def)
  obtain b2 where b2: "scrape_business_details ?none = Some b2"
    by (cases "scrape_business_details ?none")
       (auto simp: scrape_business_details_None sample_listing_def)
  obtain b3 where b3: "scrape_business_details ?dash = Some b3"
    by (cases "scrape_business_details ?dash")
       (auto simp: scrape_business_details_None sample_listing_def)
  obtain b4 where b4: "scrape_business_details ?unread = Some b4"
    by (cases "scrape_business_details ?unread")
       (auto simp: scrape_business_details_None sample_listing_def)
  note sample = review_numbers_parsed [OF scrape_sample_listing]
  have "reviews_count sample_business = Some (integer_value (number_text ''1,234 reviews''))"
    using sample regions well by blast
  moreover have "reviews_average sample_business = Some (Finite (9 / 2))"
    using sample regions by blast
  moreover have "reviews_average sample_business = py_float (average_text ''4,5 stars'')"
    using sample regions token by auto
  moreover have "reviews_count b1 = None"
    using review_numbers_parsed [OF b1] regions mal by blast
  moreover have "reviews_count b3 = None"
    using review_numbers_parsed [OF b3] regions mal by blast
  moreover have "reviews_count b2 = None"
    using review_numbers_parsed [OF b2] regions by blast
  moreover have "reviews_count b4 = None"
    using review_numbers_parsed [OF b4] regions by blast
  ultimately show ?thesis
    using well val mal b1 b2 b3 b4 scrape_sample_listing by simp
qed

section \<open>Properties of the driver\<close>

text \<open>
  C2. With no \<^verbatim>\<open>--search\<close> and no \<^verbatim>\<open>input.txt\<close>, or with an empty \<^verbatim>\<open>--search\<close> and a file
  of blank lines, \<^verbatim>\<open>main\<close> prints its message and calls \<^verbatim>\<open>sys.exit()\<close> before the browser
  is launched; the call gives no code, so the exit status is 0.
\<close>

theorem no_query_exit_status:
  "search_queries None None = SystemExit [no_query_message] None
   \<and> search_queries (Some []) (Some [[CHR '' '', CHR 0x0A], [CHR 0x0A]])
       = SystemExit [no_query_message] None
   \<and> exit_status None = 0"
  by (simp add: search_queries_def exit_status_def strip_with_def is_space_def)

lemma scrape_business_details_recorded:
  "(scrape_business_details page \<noteq> None) = recorded page"
  by (cases "click page"; cases "wait_for_timeout page")
     (auto simp: scrape_business_details_None recorded_def activated_def)

lemma scrape_listings_length:
  "length (scrape_listings pages listings business_list) =
     length business_list + length (filter (\<lambda>l. recorded (pages l)) listings)"
proof (induction listings arbitrary: business_list)
  case Nil
  show ?case by simp
next
  case (Cons l ls)
  show ?case
  proof (cases "scrape_business_details (pages l)")
    case None
    then have "\<not> recorded (pages l)"
      using scrape_business_details_recorded [of "pages l"] by simp
    with None Cons.IH show ?thesis by simp
  next
    case (Some b)
    then have "recorded (pages l)"
      using scrape_business_details_recorded [of "pages l"] by simp
    with Some Cons.IH show ?thesis by simp
  qed
qed

lemma run_searches_length:
  "run_searches total' pages business_list = Some (Inr collection) \<Longrightarrow>
   length collection = length business_list +
     sum_list (map (\<lambda>p. length (filter (\<lambda>l. recorded (details p l)) (loaded_listings total' p)))
       pages)"
proof (induction pages arbitrary: business_list)
  case Nil
  then show ?case by simp
next
  case (Cons p ps)
  from Cons.prems obtain listings where
    loaded: "scroll_and_load_listings (results p) total' = Some (Inr listings)"
    and rest: "run_searches total' ps (scrape_listings (details p) listings business_list)
      = Some (Inr collection)"
    by (auto split: option.splits sum.splits)
  have "loaded_listings total' p = listings"
    using loaded by (simp add: loaded_listings_def)
  then show ?case
    using Cons.IH [OF rest] by (simp add: scrape_listings_length)
qed

lemma loaded_single_search: "loaded_listings 1 (single_search page) = [Parent (Link 0)]"
  by (simp add: loaded_listings_def single_search_def scroll_and_load_listings_def slice_to_def
      all_links_def)

text \<open>
  C9. A listing whose click or wait raises gives no record, and the loop goes on with the
  listings after it as if it were not there. When the run ends with a collection, the
  collection has as many rows as there are, over all queries, loaded listings for which the
  click, the wait and also the read of the name returned, whatever the five regions do.
\<close>

theorem activation_failure_skips_listing:
  "(\<not> activated (pages l) \<longrightarrow>
      scrape_business_details (pages l) = None
      \<and> scrape_listings pages (l # ls) business_list = scrape_listings pages ls business_list)
   \<and> (run_searches total' searches [] = Some (Inr collection) \<longrightarrow>
      length collection =
        sum_list (map (\<lambda>p. length (filter (\<lambda>l. recorded (details p l)) (loaded_listings total' p)))
          searches))"
proof -
  have "scrape_business_details (pages l) = None" if "\<not> activated (pages l)"
    using that scrape_business_details_recorded [of "pages l"] by (simp add: recorded_def)
  then show ?thesis
    using run_searches_length [of total' searches "[]" collection] by auto
qed

theorem activation_failure_skips_listing_witness:
  "\<not> activated (sample_listing\<lparr>click := Raises\<rparr>)
   \<and> scrape_business_details (sample_listing\<lparr>click := Raises\<rparr>) = None
   \<and> run_searches 1 [single_search (sample_listing\<lparr>click := Raises\<rparr>), single_search sample_listing] []
       = Some (Inr [sample_business])
   \<and> length [sample_business] = 0 + 1"
proof -
  let ?failing = "sample_listing\<lparr>click := Raises\<rparr>"
  let ?searches = "[single_search ?failing, single_search sample_listing]"
  have inactive: "\<not> activated ?failing"
    by (simp add: activated_def)
  have ok: "recorded sample_listing" and bad: "\<not> recorded ?failing"
    by (simp_all add: recorded_def activated_def sample_listing_def)
  note inst = activation_failure_skips_listing
    [where pages = "\<lambda>l. ?failing" and l = "Link 0" and ls = "[]" and business_list = "[]"
      and total' = 1 and searches = ?searches and collection = "[sample_business]"]
  have none: "scrape_business_details ?failing = None"
    using inst inactive by blast
  have run: "run_searches 1 ?searches [] = Some (Inr [sample_business])"
    using none scrape_sample_listing
    by (simp add: single_search_def scroll_and_load_listings_def slice_to_def all_links_def)
  have "length [sample_business] =
      sum_list (map (\<lambda>p. length (filter (\<lambda>l. recorded (details p l)) (loaded_listings 1 p)))
        ?searches)"
    using inst run by blast
  then have "length [sample_business] = 0 + 1"
    using ok bad by (simp add: loaded_single_search single_search_def)
  then show ?thesis
    using inactive none run by simp
qed

text \<open>
  C9 as the specification words it fails: the click and the wait of the one listing return, the read of
  its name raises, and the collection is empty.
\<close>

theorem name_failure_counterexample:
  "activated (sample_listing\<lparr>name_attribute := Raises\<rparr>)
   \<and> loaded_listings 1 (single_search (sample_listing\<lparr>name_attribute := Raises\<rparr>))
       = [Parent (Link 0)]
   \<and> run_searches 1 [single_search (sample_listing\<lparr>name_attribute := Raises\<rparr>)] []
       = Some (Inr [])"
  by (simp add: loaded_single_search activated_def)
     (simp add: sample_listing_def single_search_def scroll_and_load_listings_def slice_to_def
       all_links_def scrape_business_details_def)

end
